theory Spec2Isabelle
  imports Main "HOL-Library.Sublist"
begin

section \<open>Data model of \<open>bot.py\<close>\<close>

text \<open>
  Python \<open>str\<close> values are modelled as \<open>string\<close>. The two non-ASCII characters of the
  source (the clipboard sign of \<open>MENU_TITLE\<close> and the triangle of the menu labels) are
  written as their UTF-8 bytes.
\<close>

datatype user = User (user_id: int)

datatype message = Message (chat_id: int)

record callback_query =
  data :: "string option"
  cq_message :: "message option"

record update =
  message :: "message option"
  callback_query :: "callback_query option"
  effective_user :: "user option"

record bot_command =
  command :: string
  description :: string

text \<open>\<open>InlineKeyboardButton(text, url=..., callback_data=...)\<close>; an absent keyword is \<open>None\<close>.\<close>

datatype button = InlineKeyboardButton (btn_text: string) (url: "string option")
  (callback_data: "string option")

type_synonym markup = "button list list"

subsection \<open>Constants\<close>

definition LOTTERY_URL :: string where
  "LOTTERY_URL = ''https://tinyurl.com/muwymx93''"

definition BUTTON_TEXT :: string where
  "BUTTON_TEXT = ''Play lottery''"

definition START_MESSAGE :: string where
  "START_MESSAGE = ''Click the button below to play lottery:''"

definition MENU_TITLE :: string where
  "MENU_TITLE = [CHR 0xF0, CHR 0x9F, CHR 0x93, CHR 0x8B] @ '' Command Menu''"

definition BOT_COMMANDS :: "bot_command list" where
  "BOT_COMMANDS =
    [\<lparr>command = ''start'', description = ''Start the bot''\<rparr>,
     \<lparr>command = ''play'', description = ''Open Lottery''\<rparr>,
     \<lparr>command = ''menu'', description = ''Show command menu''\<rparr>]"

text \<open>The literal prefix of the f-string \<open>f"\<triangleright> {cmd.command}"\<close>: triangle (U+25B6) and a space.\<close>

definition MARKER :: string where
  "MARKER = [CHR 0xE2, CHR 0x96, CHR 0xB6] @ '' ''"

section \<open>Effects: a trace of calls, and exceptions as values\<close>

text \<open>
  The handlers only act through the logger, \<open>print\<close> and the Telegram client. The world
  records every such call in order. A call of the Telegram client may raise; the list
  \<open>outcomes\<close> says for the coming client calls whether they raise (\<open>True\<close>), and a call
  beyond the end of the list succeeds. Each client call is recorded together with whether
  it succeeded.
\<close>

datatype exn = TelegramError | AttributeError

datatype level = INFO | WARNING | ERROR

text \<open>The pieces of a formatted message: literal text, an interpolated integer, an exception.\<close>

datatype fragment = Str string | Num int | Exc exn

datatype handler = H_start | H_play_command | H_menu_command | H_button_callback
  | H_error_handler | H_post_init

datatype request =
    ReplyText message string "string option" "markup option"
  | Answer callback_query "string option" bool
  | DeleteMyCommands
  | SetMyCommands "bot_command list"
  | Build string handler
  | RunPolling bool

datatype event =
    Log level "fragment list"
  | Print "fragment list"
  | AddCommandHandler string handler
  | AddCallbackQueryHandler handler
  | AddErrorHandler handler
  | Call request bool

record world =
  trace :: "event list"
  outcomes :: "bool list"

type_synonym 'a io = "world \<Rightarrow> (exn + 'a) \<times> world"

definition ret :: "'a \<Rightarrow> 'a io" where
  "ret x = (\<lambda>w. (Inr x, w))"

definition raise :: "exn \<Rightarrow> 'a io" where
  "raise e = (\<lambda>w. (Inl e, w))"

definition bind :: "'a io \<Rightarrow> ('a \<Rightarrow> 'b io) \<Rightarrow> 'b io" where
  "bind m k = (\<lambda>w. case m w of (Inl e, w') \<Rightarrow> (Inl e, w') | (Inr x, w') \<Rightarrow> k x w')"

definition seq :: "unit io \<Rightarrow> 'b io \<Rightarrow> 'b io" where
  "seq m k = bind m (\<lambda>_. k)"

text \<open>\<open>try: m except Exception as e: h e\<close>\<close>

definition try_except :: "'a io \<Rightarrow> (exn \<Rightarrow> 'a io) \<Rightarrow> 'a io" where
  "try_except m h = (\<lambda>w. case m w of (Inl e, w') \<Rightarrow> h e w' | (Inr x, w') \<Rightarrow> (Inr x, w'))"

definition emit :: "event \<Rightarrow> unit io" where
  "emit ev = (\<lambda>w. (Inr (), w\<lparr>trace := trace w @ [ev]\<rparr>))"

definition call :: "request \<Rightarrow> unit io" where
  "call r = (\<lambda>w. case outcomes w of
       [] \<Rightarrow> (Inr (), w\<lparr>trace := trace w @ [Call r True]\<rparr>)
     | b # bs \<Rightarrow>
         (if b then (Inl TelegramError, w\<lparr>trace := trace w @ [Call r False], outcomes := bs\<rparr>)
          else (Inr (), w\<lparr>trace := trace w @ [Call r True], outcomes := bs\<rparr>)))"

definition log :: "level \<Rightarrow> fragment list \<Rightarrow> unit io" where
  "log l msg = emit (Log l msg)"

definition reply_text :: "message \<Rightarrow> string \<Rightarrow> string option \<Rightarrow> markup option \<Rightarrow> unit io" where
  "reply_text m t parse_mode reply_markup = call (ReplyText m t parse_mode reply_markup)"

definition answer :: "callback_query \<Rightarrow> string option \<Rightarrow> bool \<Rightarrow> unit io" where
  "answer q t show_alert = call (Answer q t show_alert)"

text \<open>\<open>update.effective_user.id\<close>: raises \<open>AttributeError\<close> when there is no effective user.\<close>

definition effective_user_id :: "update \<Rightarrow> int io" where
  "effective_user_id upd =
     (case effective_user upd of None \<Rightarrow> raise AttributeError | Some u \<Rightarrow> ret (user_id u))"

text \<open>The trace a handler leaves when it starts in an empty world with the given outcomes.\<close>

definition run :: "'a io \<Rightarrow> bool list \<Rightarrow> event list" where
  "run h fs = trace (snd (h \<lparr>trace = [], outcomes = fs\<rparr>))"

definition result :: "'a io \<Rightarrow> bool list \<Rightarrow> exn + 'a" where
  "result h fs = fst (h \<lparr>trace = [], outcomes = fs\<rparr>)"

text \<open>Whether the next client call raises.\<close>

fun next_raises :: "bool list \<Rightarrow> bool" where
  "next_raises [] = False"
| "next_raises (b # bs) = b"

text \<open>The reply bodies handed to \<open>reply_text\<close>, in order: text, parse mode, keyboard.\<close>

fun replies :: "event list \<Rightarrow> (string \<times> string option \<times> markup option) list" where
  "replies [] = []"
| "replies (Call (ReplyText m t pm rm) ok # evs) = (t, pm, rm) # replies evs"
| "replies (ev # evs) = replies evs"

text \<open>The answers given to callback queries, in order: text and alert flag.\<close>

fun answers :: "event list \<Rightarrow> (string option \<times> bool) list" where
  "answers [] = []"
| "answers (Call (Answer q t a) ok # evs) = (t, a) # answers evs"
| "answers (ev # evs) = answers evs"

text \<open>All client requests, in order.\<close>

fun requests :: "event list \<Rightarrow> request list" where
  "requests [] = []"
| "requests (Call r ok # evs) = r # requests evs"
| "requests (ev # evs) = requests evs"

section \<open>The handlers\<close>

definition ACK_TEXT :: string where
  "ACK_TEXT = ''Bot started. Use /play to open Lottery or /menu to see available commands.''"

definition SORRY_TEXT :: string where
  "SORRY_TEXT = ''Sorry, an error occurred. Please try again later.''"

definition start :: "update \<Rightarrow> unit io" where
  "start upd = try_except
     (case message upd of
        None \<Rightarrow> log WARNING [Str ''Received update without message in start handler'']
      | Some m \<Rightarrow>
          seq (reply_text m ACK_TEXT None None)
            (bind (effective_user_id upd) (\<lambda>uid.
               log INFO [Str ''Start acknowledgement sent to user '', Num uid])))
     (\<lambda>e. seq (log ERROR [Str ''Error in start handler: '', Exc e])
        (case message upd of
           None \<Rightarrow> ret ()
         | Some m \<Rightarrow>
             try_except (reply_text m SORRY_TEXT None None)
               (\<lambda>_. log ERROR [Str ''Failed to send error message to user''])))"

definition play_command :: "update \<Rightarrow> unit io" where
  "play_command upd = try_except
     (case message upd of
        None \<Rightarrow> log WARNING [Str ''Received update without message in play handler'']
      | Some m \<Rightarrow>
          (let keyboard = [[InlineKeyboardButton BUTTON_TEXT (Some LOTTERY_URL) None]];
               reply_markup = keyboard
           in seq (reply_text m START_MESSAGE None (Some reply_markup))
                (bind (effective_user_id upd) (\<lambda>uid.
                   log INFO [Str ''Play command executed by user '', Num uid]))))
     (\<lambda>e. seq (log ERROR [Str ''Error in play handler: '', Exc e])
        (case message upd of
           None \<Rightarrow> ret ()
         | Some m \<Rightarrow>
             try_except (reply_text m SORRY_TEXT None None)
               (\<lambda>_. log ERROR [Str ''Failed to send error message to user''])))"

text \<open>
  The loop \<open>for cmd in BOT_COMMANDS: keyboard.append([...])\<close> of \<open>menu_command\<close>, over the
  commands still to visit and the keyboard built so far.
\<close>

fun menu_command_loop :: "bot_command list \<Rightarrow> markup \<Rightarrow> markup" where
  "menu_command_loop [] keyboard = keyboard"
| "menu_command_loop (cmd # cmds) keyboard =
     menu_command_loop cmds
       (keyboard @ [[InlineKeyboardButton (MARKER @ command cmd) None
                       (Some (''cmd_'' @ command cmd))]])"

definition MENU_SORRY_TEXT :: string where
  "MENU_SORRY_TEXT =
     ''Sorry, an error occurred while showing the menu. Please try again later.''"

text \<open>\<open>menu_command\<close>, with the module-level list \<open>BOT_COMMANDS\<close> as a parameter.\<close>

definition menu_command_with :: "bot_command list \<Rightarrow> update \<Rightarrow> unit io" where
  "menu_command_with cmds upd = try_except
     (case message upd of
        None \<Rightarrow> log WARNING [Str ''Received update without message in menu handler'']
      | Some m \<Rightarrow>
          (let keyboard = menu_command_loop cmds [];
               menu_text = MENU_TITLE;
               reply_markup = keyboard
           in seq (reply_text m menu_text (Some ''HTML'') (Some reply_markup))
                (bind (effective_user_id upd) (\<lambda>uid.
                   log INFO [Str ''Menu command executed by user '', Num uid]))))
     (\<lambda>e. seq (log ERROR [Str ''Error in menu handler: '', Exc e])
        (case message upd of
           None \<Rightarrow> ret ()
         | Some m \<Rightarrow>
             try_except (reply_text m MENU_SORRY_TEXT None None)
               (\<lambda>_. log ERROR [Str ''Failed to send error message to user''])))"

definition menu_command :: "update \<Rightarrow> unit io" where
  "menu_command = menu_command_with BOT_COMMANDS"

subsection \<open>Button presses\<close>

text \<open>\<open>s.startswith(p)\<close>\<close>

definition startswith :: "string \<Rightarrow> string \<Rightarrow> bool" where
  "startswith s p = (take (length p) s = p)"

text \<open>
  \<open>s.replace(old, new)\<close>: every non-overlapping occurrence of \<open>old\<close> in \<open>s\<close>, scanning
  from the left, is replaced by \<open>new\<close>; an empty \<open>old\<close> matches before every character and
  at the end.
\<close>

function str_replace :: "string \<Rightarrow> string \<Rightarrow> string \<Rightarrow> string" where
  "str_replace old new [] = (if old = [] then new else [])"
| "str_replace old new (c # cs) =
     (if old = [] then new @ c # str_replace old new cs
      else if startswith (c # cs) old
        then new @ str_replace old new (drop (length old) (c # cs))
      else c # str_replace old new cs)"
  by pat_completeness auto

termination
  by (relation "measure (\<lambda>(old, new, s). length s)") auto

text \<open>The loop of the \<open>menu\<close> branch of \<open>button_callback\<close>.\<close>

fun button_callback_loop :: "bot_command list \<Rightarrow> markup \<Rightarrow> markup" where
  "button_callback_loop [] keyboard = keyboard"
| "button_callback_loop (cmd # cmds) keyboard =
     button_callback_loop cmds
       (keyboard @ [[InlineKeyboardButton (MARKER @ command cmd) None
                       (Some (''cmd_'' @ command cmd))]])"

definition ALERT_TEXT :: string where
  "ALERT_TEXT = ''Sorry, an error occurred. Please try again.''"

text \<open>The body of \<open>button_callback\<close> once query, data and message are known to be there.\<close>

definition button_dispatch ::
  "bot_command list \<Rightarrow> update \<Rightarrow> callback_query \<Rightarrow> string \<Rightarrow> message \<Rightarrow> unit io" where
  "button_dispatch cmds upd query d m =
     seq (answer query None False)
       (bind (effective_user_id upd) (\<lambda>uid.
          seq (log INFO [Str ''Button callback received: '', Str d, Str '' from user '', Num uid])
            (if startswith d ''cmd_'' then
               (let command_name = str_replace ''cmd_'' [] d in
                if command_name = ''start'' then
                  seq (reply_text m ACK_TEXT None None)
                    (bind (effective_user_id upd) (\<lambda>uid.
                       log INFO [Str ''Start acknowledgement executed via button by user '',
                                 Num uid]))
                else if command_name = ''play'' then
                  (let keyboard = [[InlineKeyboardButton BUTTON_TEXT (Some LOTTERY_URL) None]];
                       reply_markup = keyboard
                   in seq (reply_text m START_MESSAGE None (Some reply_markup))
                        (bind (effective_user_id upd) (\<lambda>uid.
                           log INFO [Str ''Play command executed via button by user '',
                                     Num uid])))
                else if command_name = ''menu'' then
                  (let keyboard = button_callback_loop cmds [];
                       menu_text = MENU_TITLE;
                       reply_markup = keyboard
                   in seq (reply_text m menu_text (Some ''HTML'') (Some reply_markup))
                        (bind (effective_user_id upd) (\<lambda>uid.
                           log INFO [Str ''Menu command executed via button by user '',
                                     Num uid])))
                else ret ())
             else ret ())))"

text \<open>
  \<open>button_callback\<close>, with \<open>BOT_COMMANDS\<close> as a parameter: the body of its \<open>try\<close>, its
  \<open>except\<close> branch, and the two together. \<open>not query.data\<close> holds for \<open>None\<close> and for the
  empty string.
\<close>

definition button_callback_try :: "bot_command list \<Rightarrow> update \<Rightarrow> unit io" where
  "button_callback_try cmds upd =
     (case callback_query upd of
        None \<Rightarrow> log WARNING [Str ''Received update without callback_query'']
      | Some query \<Rightarrow>
          (let invalid =
                 seq (log WARNING [Str ''Received callback_query without data''])
                   (answer query (Some ''Invalid button data'') False)
           in case data query of
                None \<Rightarrow> invalid
              | Some d \<Rightarrow>
                  if d = [] then invalid
                  else (case cq_message query of
                          None \<Rightarrow>
                            seq (log WARNING [Str ''Received callback_query without message''])
                              (answer query (Some ''Message not found'') False)
                        | Some m \<Rightarrow> button_dispatch cmds upd query d m)))"

definition button_callback_except :: "update \<Rightarrow> exn \<Rightarrow> unit io" where
  "button_callback_except upd e =
     seq (log ERROR [Str ''Error in button_callback: '', Exc e])
       (case callback_query upd of
          None \<Rightarrow> ret ()
        | Some query \<Rightarrow>
            try_except (answer query (Some ALERT_TEXT) True)
              (\<lambda>_. log ERROR [Str ''Failed to send error answer to user'']))"

definition button_callback_with :: "bot_command list \<Rightarrow> update \<Rightarrow> unit io" where
  "button_callback_with cmds upd =
     try_except (button_callback_try cmds upd) (button_callback_except upd)"

definition button_callback :: "update \<Rightarrow> unit io" where
  "button_callback = button_callback_with BOT_COMMANDS"

subsection \<open>The error handler\<close>

text \<open>
  \<open>error_handler(update, context)\<close>: \<open>update\<close> is any object, \<open>None\<close> here when it is
  not an \<open>Update\<close>; the exception is \<open>context.error\<close>.
\<close>

definition error_handler :: "update option \<Rightarrow> exn \<Rightarrow> unit io" where
  "error_handler obj error =
     seq (log ERROR [Str ''Exception while handling an update: '', Exc error])
       (case obj of
          None \<Rightarrow> ret ()
        | Some upd \<Rightarrow>
            (case message upd of
               None \<Rightarrow> ret ()
             | Some m \<Rightarrow>
                 try_except
                   (reply_text m ''Sorry, an unexpected error occurred. Please try again later.''
                      None None)
                   (\<lambda>_. log ERROR [Str ''Failed to send error message to user''])))"

subsection \<open>Startup\<close>

definition post_init :: "unit io" where
  "post_init = try_except
     (seq (try_except (call DeleteMyCommands)
             (\<lambda>delete_error.
                log WARNING [Str ''Could not delete old commands (this is okay if none exist): '',
                             Exc delete_error]))
        (seq (call (SetMyCommands BOT_COMMANDS))
           (log INFO [Str ''Bot commands menu initialized successfully - start, play and menu commands set''])))
     (\<lambda>e. log ERROR [Str ''Error in post_init: '', Exc e])"

text \<open>
  \<open>os.getenv(key, default)\<close> on the environment as a map. In \<open>main\<close>, \<open>Build\<close> stands for
  \<open>Application.builder().token(TOKEN).post_init(post_init).build()\<close> and \<open>RunPolling\<close>
  for \<open>application.run_polling(drop_pending_updates=True)\<close>.
\<close>

definition getenv :: "(string \<rightharpoonup> string) \<Rightarrow> string \<Rightarrow> string \<Rightarrow> string" where
  "getenv env key dflt = (case env key of None \<Rightarrow> dflt | Some v \<Rightarrow> v)"

definition main :: "(string \<rightharpoonup> string) \<Rightarrow> unit io" where
  "main env =
     (let TOKEN = getenv env ''BOT_TOKEN'' ''8494619697:AAG91Y2BkW-_u__Vob7czhcmQoPrxcBijpM'' in
      if TOKEN = [] then
        log ERROR [Str ''Bot token not found! Please set BOT_TOKEN environment variable.'']
      else
        try_except
          (seq (call (Build TOKEN H_post_init))
          (seq (emit (AddCommandHandler ''start'' H_start))
          (seq (emit (AddCommandHandler ''play'' H_play_command))
          (seq (emit (AddCommandHandler ''menu'' H_menu_command))
          (seq (emit (AddCallbackQueryHandler H_button_callback))
          (seq (emit (AddErrorHandler H_error_handler))
          (seq (log INFO [Str ''Bot is starting...''])
          (seq (emit (Print [Str ''Bot is running...'']))
               (call (RunPolling True))))))))))
          (\<lambda>e. seq (log ERROR [Str ''Failed to start bot: '', Exc e])
                 (emit (Print [Str ''Error starting bot: '', Exc e]))))"

section \<open>Reading traces\<close>

text \<open>The messages logged at level \<open>ERROR\<close>, in order.\<close>

fun errors :: "event list \<Rightarrow> fragment list list" where
  "errors [] = []"
| "errors (Log ERROR msg # evs) = msg # errors evs"
| "errors (ev # evs) = errors evs"

text \<open>Example events: a command message and a button press, both from user 7 in chat 1.\<close>

definition example_command :: update where
  "example_command =
     \<lparr>message = Some (Message 1), callback_query = None, effective_user = Some (User 7)\<rparr>"

definition example_query :: "string \<Rightarrow> callback_query" where
  "example_query d = \<lparr>data = Some d, cq_message = Some (Message 1)\<rparr>"

definition example_press :: "string \<Rightarrow> update" where
  "example_press d =
     \<lparr>message = None, callback_query = Some (example_query d),
      effective_user = Some (User 7)\<rparr>"

section \<open>Basic facts\<close>

lemmas io_defs = ret_def raise_def bind_def seq_def try_except_def emit_def log_def
  reply_text_def answer_def effective_user_id_def

lemma call_apply:
  "call r w =
     (if next_raises (outcomes w)
      then (Inl TelegramError,
            w\<lparr>trace := trace w @ [Call r False], outcomes := tl (outcomes w)\<rparr>)
      else (Inr (), w\<lparr>trace := trace w @ [Call r True], outcomes := tl (outcomes w)\<rparr>))"
  by (cases "outcomes w") (simp_all add: call_def)

lemma answers_append: "answers (xs @ ys) = answers xs @ answers ys"
  by (induction xs rule: answers.induct) simp_all

lemma replies_append: "replies (xs @ ys) = replies xs @ replies ys"
  by (induction xs rule: replies.induct) simp_all

lemma requests_append: "requests (xs @ ys) = requests xs @ requests ys"
  by (induction xs rule: requests.induct) simp_all

lemma errors_append: "errors (xs @ ys) = errors xs @ errors ys"
  by (induction xs rule: errors.induct) simp_all

lemmas proj_append = answers_append replies_append requests_append errors_append

lemma no_raise_next: "True \<notin> set fs \<Longrightarrow> \<not> next_raises fs \<and> True \<notin> set (tl fs)"
  by (cases fs) auto

lemma menu_command_loop_map:
  "menu_command_loop cmds kb =
     kb @ map (\<lambda>c. [InlineKeyboardButton (MARKER @ command c) None
                       (Some (''cmd_'' @ command c))]) cmds"
  by (induction cmds arbitrary: kb) simp_all

lemma button_callback_loop_eq: "button_callback_loop cmds kb = menu_command_loop cmds kb"
  by (induction cmds arbitrary: kb) simp_all

subsection \<open>The replies of the command handlers\<close>

lemma start_replies:
  assumes "message upd = Some m"
  shows "replies (run (start upd) fs) =
    (ACK_TEXT, None, None) #
      (if next_raises fs \<or> effective_user upd = None then [(SORRY_TEXT, None, None)] else [])"
  using assms
  by (cases "effective_user upd")
    (auto simp: start_def run_def io_defs call_apply proj_append)

lemma play_replies:
  assumes "message upd = Some m"
  shows "replies (run (play_command upd) fs) =
    (START_MESSAGE, None, Some [[InlineKeyboardButton BUTTON_TEXT (Some LOTTERY_URL) None]]) #
      (if next_raises fs \<or> effective_user upd = None then [(SORRY_TEXT, None, None)] else [])"
  using assms
  by (cases "effective_user upd")
    (auto simp: play_command_def run_def io_defs call_apply proj_append Let_def)

lemma menu_replies:
  assumes "message upd = Some m"
  shows "replies (run (menu_command_with cmds upd) fs) =
    (MENU_TITLE, Some ''HTML'', Some (menu_command_loop cmds [])) #
      (if next_raises fs \<or> effective_user upd = None
       then [(MENU_SORRY_TEXT, None, None)] else [])"
  using assms
  by (cases "effective_user upd")
    (auto simp: menu_command_with_def run_def io_defs call_apply proj_append Let_def)

subsection \<open>The body of \<open>button_callback\<close>\<close>

text \<open>The body answers the query exactly once and logs no error itself.\<close>

lemma try_answers:
  assumes "callback_query upd = Some q"
  shows "length (answers (trace (snd (button_callback_try cmds upd w)))) =
           Suc (length (answers (trace w)))
       \<and> errors (trace (snd (button_callback_try cmds upd w))) = errors (trace w)"
  using assms
  by (cases "effective_user upd")
    (auto simp: button_callback_try_def button_dispatch_def io_defs call_apply proj_append
      Let_def split: option.splits)

text \<open>The body returns normally when the requester is known and no client call raises.\<close>

lemma try_returns:
  assumes "callback_query upd = Some q" and "effective_user upd = Some u"
    and "True \<notin> set (outcomes w)"
  shows "fst (button_callback_try cmds upd w) = Inr ()"
  using assms no_raise_next [of "outcomes w"] no_raise_next [of "tl (outcomes w)"]
  by (auto simp: button_callback_try_def button_dispatch_def io_defs call_apply Let_def
      split: option.splits)

text \<open>What the \<open>except\<close> branch adds: one error line, one more answer, at most one more line.\<close>

lemma except_answers:
  assumes "callback_query upd = Some q"
  shows "length (answers (trace (snd (button_callback_except upd e w)))) =
           Suc (length (answers (trace w)))
       \<and> errors (trace (snd (button_callback_except upd e w))) \<noteq> []"
  using assms
  by (auto simp: button_callback_except_def io_defs call_apply proj_append)

lemma button_callback_answers:
  assumes "callback_query upd = Some q"
  shows "length (answers (run (button_callback_with cmds upd) fs)) =
    (if errors (run (button_callback_with cmds upd) fs) = [] then 1 else 2)"
proof -
  let ?w = "\<lparr>trace = [], outcomes = fs\<rparr>"
  obtain r w' where body: "button_callback_try cmds upd ?w = (r, w')"
    by (cases "button_callback_try cmds upd ?w")
  from try_answers [OF assms, of cmds ?w] body
  have tr: "length (answers (trace w')) = 1" "errors (trace w') = []"
    by simp_all
  show ?thesis
  proof (cases r)
    case (Inl e)
    with body tr except_answers [OF assms, of e w'] show ?thesis
      by (simp add: run_def button_callback_with_def try_except_def)
  next
    case (Inr x)
    with body tr show ?thesis
      by (simp add: run_def button_callback_with_def try_except_def)
  qed
qed

lemma button_callback_no_error:
  assumes "callback_query upd = Some q" and "effective_user upd = Some u"
    and "True \<notin> set fs"
  shows "errors (run (button_callback_with cmds upd) fs) = []"
proof -
  let ?w = "\<lparr>trace = [], outcomes = fs\<rparr>"
  obtain r w' where body: "button_callback_try cmds upd ?w = (r, w')"
    by (cases "button_callback_try cmds upd ?w")
  from try_returns [OF assms(1,2), of ?w cmds] assms(3) body have "r = Inr ()"
    by simp
  with body try_answers [OF assms(1), of cmds ?w] show ?thesis
    by (simp add: run_def button_callback_with_def try_except_def)
qed

subsection \<open>What \<open>button_callback\<close> requests for a well-formed press\<close>

lemma button_callback_requests:
  assumes "callback_query upd = Some q" and "data q = Some d" and "d \<noteq> []"
    and "cq_message q = Some m" and "effective_user upd = Some u" and "True \<notin> set fs"
  shows "requests (run (button_callback_with cmds upd) fs) =
    Answer q None False #
      (if startswith d ''cmd_'' then
         (if str_replace ''cmd_'' [] d = ''start'' then [ReplyText m ACK_TEXT None None]
          else if str_replace ''cmd_'' [] d = ''play'' then
            [ReplyText m START_MESSAGE None
               (Some [[InlineKeyboardButton BUTTON_TEXT (Some LOTTERY_URL) None]])]
          else if str_replace ''cmd_'' [] d = ''menu'' then
            [ReplyText m MENU_TITLE (Some ''HTML'') (Some (button_callback_loop cmds []))]
          else [])
       else [])"
  using assms no_raise_next [of fs] no_raise_next [of "tl fs"]
  by (auto simp: button_callback_with_def button_callback_try_def button_dispatch_def run_def
      io_defs call_apply proj_append Let_def)

lemma button_menu_replies:
  assumes "callback_query upd = Some q" and "data q = Some ''cmd_menu''"
    and "cq_message q = Some m" and "effective_user upd = Some u" and "True \<notin> set fs"
  shows "replies (run (button_callback_with cmds upd) fs) =
    [(MENU_TITLE, Some ''HTML'', Some (button_callback_loop cmds []))]"
  using assms no_raise_next [of fs] no_raise_next [of "tl fs"]
  by (auto simp: button_callback_with_def button_callback_try_def button_dispatch_def run_def
      io_defs call_apply proj_append Let_def startswith_def)

subsection \<open>\<open>main\<close> with an empty token\<close>

text \<open>The guard of \<open>main\<close> fires when \<open>BOT_TOKEN\<close> is set to the empty string.\<close>

lemma main_empty_token:
  assumes "env ''BOT_TOKEN'' = Some []"
  shows "run (main env) fs =
    [Log ERROR [Str ''Bot token not found! Please set BOT_TOKEN environment variable.'']]"
  using assms by (simp add: main_def getenv_def run_def io_defs)

section \<open>The command handlers\<close>

text \<open>
  C8. For an update that carries a message, \<open>start\<close> first sends, to that message, the
  fixed acknowledgement text with no parse mode and no keyboard (no attached actions).
  When the send succeeds and the update has an effective user this is the only request
  of the handler; otherwise the \<open>except\<close> branch follows it with one plain apology.
\<close>

theorem start_reply:
  assumes "message upd = Some m"
  shows "requests (run (start upd) fs) =
    ReplyText m ''Bot started. Use /play to open Lottery or /menu to see available commands.''
        None None #
      (if next_raises fs \<or> effective_user upd = None
       then [ReplyText m ''Sorry, an error occurred. Please try again later.'' None None]
       else [])"
  using assms
  by (cases "effective_user upd")
    (auto simp: start_def run_def io_defs call_apply proj_append ACK_TEXT_def SORRY_TEXT_def)

theorem start_reply_witness:
  "requests (run (start example_command) []) =
    [ReplyText (Message 1)
       ''Bot started. Use /play to open Lottery or /menu to see available commands.''
       None None]"
  using start_reply [of example_command "Message 1" "[]"]
  by (simp add: example_command_def)

text \<open>
  C6. For an update that carries a message, \<open>play_command\<close> first sends the fixed prompt
  with a keyboard of exactly one button: a link button (no callback data) whose label is
  the fixed button text and whose URL is the lottery URL. When the send succeeds and the
  update has an effective user this is the only request of the handler.
\<close>

theorem play_reply:
  assumes "message upd = Some m"
  shows "requests (run (play_command upd) fs) =
    ReplyText m ''Click the button below to play lottery:'' None
        (Some [[InlineKeyboardButton ''Play lottery'' (Some LOTTERY_URL) None]]) #
      (if next_raises fs \<or> effective_user upd = None
       then [ReplyText m ''Sorry, an error occurred. Please try again later.'' None None]
       else [])"
  using assms
  by (cases "effective_user upd")
    (auto simp: play_command_def run_def io_defs call_apply proj_append Let_def
      START_MESSAGE_def BUTTON_TEXT_def SORRY_TEXT_def)

theorem play_reply_witness:
  "requests (run (play_command example_command) []) =
    [ReplyText (Message 1) ''Click the button below to play lottery:'' None
       (Some [[InlineKeyboardButton ''Play lottery'' (Some ''https://tinyurl.com/muwymx93'')
                 None]])]"
  using play_reply [of example_command "Message 1" "[]"]
  by (simp add: example_command_def LOTTERY_URL_def)

text \<open>
  C5. For an update that carries a message and any command registry, \<open>menu_command\<close>
  first sends the menu title (in HTML mode) with a keyboard that has, for each entry of
  the registry and in registry order, one row of one callback button: its payload is
  \<open>cmd_\<close> followed by the command name, it has no URL, and its label is the marker followed
  by the command name, so the label contains the name. For the registry of the source
  the three payloads are \<open>cmd_start\<close>, \<open>cmd_play\<close>, \<open>cmd_menu\<close>.
\<close>

theorem menu_reply:
  assumes "message upd = Some m"
  shows "requests (run (menu_command_with cmds upd) fs) =
      ReplyText m MENU_TITLE (Some ''HTML'')
          (Some (map (\<lambda>c. [InlineKeyboardButton (MARKER @ command c) None
                              (Some (''cmd_'' @ command c))]) cmds)) #
        (if next_raises fs \<or> effective_user upd = None
         then [ReplyText m
                 ''Sorry, an error occurred while showing the menu. Please try again later.''
                 None None]
         else [])
    \<and> list_all2 (\<lambda>c row. length row = 1 \<and> sublist (command c) (btn_text (hd row)))
        cmds (menu_command_loop cmds [])
    \<and> map (map callback_data) (menu_command_loop BOT_COMMANDS []) =
        [[Some ''cmd_start''], [Some ''cmd_play''], [Some ''cmd_menu'']]"
proof (intro conjI)
  show "requests (run (menu_command_with cmds upd) fs) =
      ReplyText m MENU_TITLE (Some ''HTML'')
          (Some (map (\<lambda>c. [InlineKeyboardButton (MARKER @ command c) None
                              (Some (''cmd_'' @ command c))]) cmds)) #
        (if next_raises fs \<or> effective_user upd = None
         then [ReplyText m
                 ''Sorry, an error occurred while showing the menu. Please try again later.''
                 None None]
         else [])"
    using assms
    by (cases "effective_user upd")
      (auto simp: menu_command_with_def run_def io_defs call_apply proj_append Let_def
        menu_command_loop_map MENU_SORRY_TEXT_def)
  show "list_all2 (\<lambda>c row. length row = 1 \<and> sublist (command c) (btn_text (hd row)))
      cmds (menu_command_loop cmds [])"
    by (simp add: menu_command_loop_map list_all2_map2 list_all2_same)
  show "map (map callback_data) (menu_command_loop BOT_COMMANDS []) =
      [[Some ''cmd_start''], [Some ''cmd_play''], [Some ''cmd_menu'']]"
    by (simp add: BOT_COMMANDS_def)
qed

theorem menu_reply_witness:
  "requests (run (menu_command example_command) []) =
    [ReplyText (Message 1) MENU_TITLE (Some ''HTML'')
       (Some [[InlineKeyboardButton (MARKER @ ''start'') None (Some ''cmd_start'')],
              [InlineKeyboardButton (MARKER @ ''play'') None (Some ''cmd_play'')],
              [InlineKeyboardButton (MARKER @ ''menu'') None (Some ''cmd_menu'')]])]"
  using menu_reply [of example_command "Message 1" BOT_COMMANDS "[]"]
  by (simp add: example_command_def menu_command_def BOT_COMMANDS_def)

text \<open>
  C10. The reply bodies of \<open>start\<close>, \<open>play_command\<close> and \<open>menu_command\<close> do not depend
  on the requester: two updates that both carry a message and an effective user, however
  they differ in message and user, get the same list of reply bodies (text, parse mode,
  keyboard) under the same behaviour of the client.
\<close>

theorem replies_independent_of_requester:
  assumes "message u1 = Some m1" and "effective_user u1 = Some r1"
    and "message u2 = Some m2" and "effective_user u2 = Some r2"
  shows "replies (run (start u1) fs) = replies (run (start u2) fs)
    \<and> replies (run (play_command u1) fs) = replies (run (play_command u2) fs)
    \<and> replies (run (menu_command u1) fs) = replies (run (menu_command u2) fs)"
  using assms
  by (simp add: start_replies play_replies menu_replies menu_command_def)

theorem replies_independent_of_requester_witness:
  "replies (run (start example_command) []) =
     replies (run (start \<lparr>message = Some (Message 2), callback_query = None,
                           effective_user = Some (User 8)\<rparr>) [])
   \<and> replies (run (play_command example_command) []) =
     replies (run (play_command \<lparr>message = Some (Message 2), callback_query = None,
                                  effective_user = Some (User 8)\<rparr>) [])
   \<and> replies (run (menu_command example_command) []) =
     replies (run (menu_command \<lparr>message = Some (Message 2), callback_query = None,
                                  effective_user = Some (User 8)\<rparr>) [])"
  using replies_independent_of_requester [of example_command "Message 1" "User 7"
      "\<lparr>message = Some (Message 2), callback_query = None, effective_user = Some (User 8)\<rparr>"
      "Message 2" "User 8" "[]"]
  by (simp add: example_command_def)

section \<open>Button presses\<close>

text \<open>
  C4. When no client call raises, a press of the button with payload \<open>cmd_menu\<close> gets
  exactly one reply body, and it is the one reply body a \<open>/menu\<close> command gets: same
  title, same parse mode, same keyboard, for any command registry.
\<close>

theorem button_menu_same_as_menu_command:
  assumes "callback_query ub = Some q" and "data q = Some ''cmd_menu''"
    and "cq_message q = Some mb" and "effective_user ub = Some rb"
    and "message um = Some mm" and "effective_user um = Some rm"
    and "True \<notin> set fs" and "True \<notin> set fs'"
  shows "replies (run (button_callback_with cmds ub) fs) =
           replies (run (menu_command_with cmds um) fs')
       \<and> length (replies (run (menu_command_with cmds um) fs')) = 1"
  using assms no_raise_next [of fs']
  by (simp add: button_menu_replies menu_replies button_callback_loop_eq)

theorem button_menu_same_as_menu_command_witness:
  "replies (run (button_callback (example_press ''cmd_menu'')) []) =
     replies (run (menu_command example_command) [])
   \<and> length (replies (run (menu_command example_command) [])) = 1"
  using button_menu_same_as_menu_command [of "example_press ''cmd_menu''"
      "example_query ''cmd_menu''" "Message 1" "User 7" example_command "Message 1" "User 7"
      "[]" "[]" BOT_COMMANDS]
  by (simp add: example_press_def example_query_def example_command_def
      button_callback_def menu_command_def)

text \<open>
  C3, as the code has it. For an update that carries a callback query,
  \<open>button_callback\<close> answers the query exactly once when it handles the press without an
  exception (no error is logged), and exactly twice when an exception is raised while
  handling: the \<open>except\<close> branch answers the query again, with an alert. It never
  answers zero times or more than twice. No exception is raised when the update has an
  effective user and no client call raises.
\<close>

theorem button_answer_count:
  assumes "callback_query upd = Some q"
  shows "length (answers (run (button_callback upd) fs)) =
           (if errors (run (button_callback upd) fs) = [] then 1 else 2)
       \<and> (effective_user upd \<noteq> None \<and> True \<notin> set fs \<longrightarrow>
            errors (run (button_callback upd) fs) = [])"
  using assms button_callback_answers [of upd q BOT_COMMANDS fs]
    button_callback_no_error [of upd q _ fs BOT_COMMANDS]
  by (auto simp: button_callback_def)

theorem button_answer_count_witness:
  "length (answers (run (button_callback (example_press ''cmd_start'')) [])) = 1
   \<and> errors (run (button_callback (example_press ''cmd_start'')) []) = []"
  using button_answer_count [of "example_press ''cmd_start''" "example_query ''cmd_start''" "[]"]
  by (simp add: example_press_def)

text \<open>
  C3, as stated, fails: when the acknowledgement succeeds and the reply then raises, the
  query of a \<open>cmd_start\<close> press is answered twice.
\<close>

theorem button_answered_twice:
  "answers (run (button_callback (example_press ''cmd_start'')) [False, True]) =
     [(None, False), (Some ''Sorry, an error occurred. Please try again.'', True)]"
  by (simp add: example_press_def example_query_def button_callback_def
      button_callback_with_def button_callback_try_def button_callback_except_def
      button_dispatch_def run_def io_defs call_apply Let_def startswith_def ALERT_TEXT_def)

text \<open>
  C2 at the payload \<open>cmd_cmd_start\<close>. Stripping the leading prefix leaves \<open>cmd_start\<close>,
  which is no command name; the handler removes every occurrence of \<open>cmd_\<close>, recovers
  \<open>start\<close> and sends the start acknowledgement.
\<close>

theorem button_callback_cmd_cmd_start:
  "drop (length ''cmd_'') ''cmd_cmd_start'' = ''cmd_start''
   \<and> str_replace ''cmd_'' [] ''cmd_cmd_start'' = ''start''
   \<and> requests (run (button_callback (example_press ''cmd_cmd_start'')) []) =
       [Answer (example_query ''cmd_cmd_start'') None False,
        ReplyText (Message 1)
          ''Bot started. Use /play to open Lottery or /menu to see available commands.''
          None None]"
  by (simp add: example_press_def example_query_def button_callback_def
      button_callback_with_def button_callback_try_def button_dispatch_def run_def io_defs
      call_apply Let_def startswith_def ACK_TEXT_def)

text \<open>
  C7 at the payload \<open>cmd_cmd_play\<close>. The payload starts with the prefix and the name left
  after the prefix, \<open>cmd_play\<close>, is unknown, yet the handler sends the lottery reply
  after the acknowledgement.
\<close>

theorem button_callback_cmd_cmd_play:
  "drop (length ''cmd_'') ''cmd_cmd_play'' = ''cmd_play''
   \<and> requests (run (button_callback (example_press ''cmd_cmd_play'')) []) =
       [Answer (example_query ''cmd_cmd_play'') None False,
        ReplyText (Message 1) ''Click the button below to play lottery:'' None
          (Some [[InlineKeyboardButton ''Play lottery'' (Some LOTTERY_URL) None]])]"
  by (simp add: example_press_def example_query_def button_callback_def
      button_callback_with_def button_callback_try_def button_dispatch_def run_def io_defs
      call_apply Let_def startswith_def START_MESSAGE_def BUTTON_TEXT_def)

section \<open>Startup\<close>

text \<open>
  C9. Whatever the client does, \<open>post_init\<close> first asks to delete the registered
  commands and then to set them to \<open>BOT_COMMANDS\<close>, in this order, and it returns
  normally: a failure of either request is logged and not raised to the caller.
\<close>

theorem post_init_publishes:
  "result post_init fs = Inr ()
   \<and> requests (run post_init fs) = [DeleteMyCommands, SetMyCommands BOT_COMMANDS]"
  by (simp add: post_init_def run_def result_def io_defs call_apply proj_append)

text \<open>
  C1 at the empty environment. With no \<open>BOT_TOKEN\<close> set, \<open>main\<close> logs no error,
  builds the application with the token literal of the source and starts polling.
\<close>

theorem main_without_token:
  "errors (run (main Map.empty) []) = []
   \<and> requests (run (main Map.empty) []) =
       [Build ''8494619697:AAG91Y2BkW-_u__Vob7czhcmQoPrxcBijpM'' H_post_init, RunPolling True]"
  by (simp add: main_def getenv_def run_def io_defs call_apply Let_def)

end
